theory Spec2Isabelle
  imports Complex_Main
begin

section \<open>Data model of the soil analyzer (components/Header.tsx, second module)\<close>

text \<open>
  The component \<open>SoilAnalyzer\<close> keeps its session in React state cells and mutates them
  from event handlers and timer callbacks.  Each handler is embedded as a function from
  the state it is called in to the state its updates produce.  What the handlers do to
  the browser is part of the state as well: the toasts they emit, the object URLs that
  are alive, and the timers they have scheduled.

  JavaScript strings are modelled by \<open>string\<close>; a \<open>char\<close> stands for one code unit
  below 256.  A JavaScript Number that holds a byte count or a percentage is an integer;
  the Numbers computed from \<open>Math.random()\<close> are reals, and every arithmetic operation
  on them passes through a rounding function \<open>fl\<close> (the rounding of binary64
  arithmetic), which is a parameter of the model.
\<close>

record File =
  file_name :: string
  file_type :: string
  file_size :: nat

record WeatherData =
  temperature :: int
  humidity :: int
  precipitation :: int
  description :: string

record SoilResult =
  soil_type :: string
  confidence :: int
  soil_description :: string
  color :: string

record CropSuggestion =
  name :: string
  suitability :: int
  season :: string
  reason :: string
  details :: string
  saved :: bool

record LocationData =
  lat :: real
  lng :: real
  loc_city :: "string option"
  loc_state :: "string option"

record ManualLocation =
  city :: string
  state :: string

datatype toast = ToastError string | ToastSuccess string | ToastInfo string

text \<open>The callbacks handed to \<open>setTimeout\<close>, each scheduled with its delay in ms.\<close>

datatype callback =
  WeatherCallback | SoilCallback | CropsCallback | DownloadCallback | EmailCallback

record analyzer =
  selectedFile :: "File option"
  previewUrl :: string
  isDragging :: bool
  location :: "LocationData option"
  manualLocation :: ManualLocation
  showManualLocation :: bool
  locationLoading :: bool
  weather :: "WeatherData option"
  weatherLoading :: bool
  analyzing :: bool
  soilResult :: "SoilResult option"
  cropSuggestions :: "CropSuggestion list"
  suggestingCrops :: bool
  showImageZoom :: bool
  showMapPicker :: bool
  showExportDialog :: bool
  exportEmail :: string
  selectedCropsForComparison :: "string list"
  expandedCrop :: "string option"
  toasts :: "toast list"
  objectUrls :: "string list"
  timers :: "(callback \<times> nat) list"

text \<open>The values the \<open>useState\<close> calls start from; nothing has happened in the browser.\<close>

definition initial :: analyzer where
  "initial =
     \<lparr> selectedFile = None, previewUrl = [], isDragging = False,
       location = None, manualLocation = \<lparr> city = [], state = [] \<rparr>,
       showManualLocation = False, locationLoading = False,
       weather = None, weatherLoading = False,
       analyzing = False, soilResult = None, cropSuggestions = [],
       suggestingCrops = False,
       showImageZoom = False, showMapPicker = False, showExportDialog = False,
       exportEmail = [], selectedCropsForComparison = [], expandedCrop = None,
       toasts = [], objectUrls = [], timers = [] \<rparr>"

subsection \<open>Browser primitives\<close>

definition toast_error :: "string \<Rightarrow> analyzer \<Rightarrow> analyzer" where
  "toast_error m s = s\<lparr>toasts := toasts s @ [ToastError m]\<rparr>"

definition toast_success :: "string \<Rightarrow> analyzer \<Rightarrow> analyzer" where
  "toast_success m s = s\<lparr>toasts := toasts s @ [ToastSuccess m]\<rparr>"

definition toast_info :: "string \<Rightarrow> analyzer \<Rightarrow> analyzer" where
  "toast_info m s = s\<lparr>toasts := toasts s @ [ToastInfo m]\<rparr>"

text \<open>
  \<open>URL.createObjectURL\<close> hands out a URL chosen by the browser (the argument \<open>url\<close>)
  and keeps it alive until \<open>URL.revokeObjectURL\<close> releases it.
\<close>

definition createObjectURL :: "string \<Rightarrow> analyzer \<Rightarrow> analyzer" where
  "createObjectURL url s = s\<lparr>objectUrls := url # objectUrls s\<rparr>"

definition revokeObjectURL :: "string \<Rightarrow> analyzer \<Rightarrow> analyzer" where
  "revokeObjectURL url s = s\<lparr>objectUrls := removeAll url (objectUrls s)\<rparr>"

definition setTimeout :: "callback \<Rightarrow> nat \<Rightarrow> analyzer \<Rightarrow> analyzer" where
  "setTimeout cb ms s = s\<lparr>timers := timers s @ [(cb, ms)]\<rparr>"

text \<open>A timer that fires leaves the list of pending timers.\<close>

definition expire :: "callback \<Rightarrow> nat \<Rightarrow> analyzer \<Rightarrow> analyzer" where
  "expire cb ms s = s\<lparr>timers := remove1 (cb, ms) (timers s)\<rparr>"

definition startsWith :: "string \<Rightarrow> string \<Rightarrow> bool" where
  "startsWith s p = (take (length p) s = p)"

text \<open>White space and line terminators of ECMAScript, as far as they are below 256.\<close>

definition isWhiteSpace :: "char \<Rightarrow> bool" where
  "isWhiteSpace c = (of_char c \<in> {9, 10, 11, 12, 13, 32, 160 :: nat})"

definition trim :: "string \<Rightarrow> string" where
  "trim s = rev (dropWhile isWhiteSpace (rev (dropWhile isWhiteSpace s)))"

text \<open>\<open>Math.round\<close>: the nearest integer, a tie going up.\<close>

definition Math_round :: "real \<Rightarrow> int" where
  "Math_round x = \<lfloor>x + 1 / 2\<rfloor>"

definition Math_floor :: "real \<Rightarrow> int" where
  "Math_floor x = \<lfloor>x\<rfloor>"

text \<open>The decimal digits of an integer, as a template literal prints it.\<close>

fun digits :: "nat \<Rightarrow> string" where
  "digits n =
     (if n < 10 then [''0123456789'' ! n]
      else digits (n div 10) @ [''0123456789'' ! (n mod 10)])"

definition String :: "int \<Rightarrow> string" where
  "String i = (if i < 0 then CHR ''-'' # digits (nat (- i)) else digits (nat i))"

section \<open>File handling\<close>

definition handleFileSelect :: "string \<Rightarrow> File \<Rightarrow> analyzer \<Rightarrow> analyzer" where
  "handleFileSelect url file s =
     (if \<not> startsWith (file_type file) ''image/'' then
        toast_error ''Please select a valid image file (JPEG or PNG)'' s
      else if file_size file > 10 * 1024 * 1024 then
        toast_error ''Image size must be less than 10MB'' s
      else
        toast_success ''Image uploaded successfully''
          (createObjectURL url (s\<lparr>selectedFile := Some file\<rparr>) \<lparr>previewUrl := url\<rparr>))"

text \<open>\<open>files[0]\<close> is undefined when the drop or the input carries no file.\<close>

definition handleDrop :: "string \<Rightarrow> File option \<Rightarrow> analyzer \<Rightarrow> analyzer" where
  "handleDrop url file s =
     (let s1 = s\<lparr>isDragging := False\<rparr>
      in case file of None \<Rightarrow> s1 | Some f \<Rightarrow> handleFileSelect url f s1)"

definition handleFileInputChange :: "string \<Rightarrow> File option \<Rightarrow> analyzer \<Rightarrow> analyzer" where
  "handleFileInputChange url file s =
     (case file of None \<Rightarrow> s | Some f \<Rightarrow> handleFileSelect url f s)"

definition clearImage :: "analyzer \<Rightarrow> analyzer" where
  "clearImage s =
     (let s1 = s\<lparr>selectedFile := None\<rparr>;
          s2 = (if previewUrl s \<noteq> [] then
                  (revokeObjectURL (previewUrl s) s1) \<lparr>previewUrl := []\<rparr>
                else s1)
      in toast_info ''Image cleared'' (s2\<lparr>soilResult := None, cropSuggestions := []\<rparr>))"

text \<open>
  The cleanup of the effect that depends on \<open>previewUrl\<close>: when a render changes the
  preview URL (and when the component goes away), React runs the cleanup that the render
  before had registered, which revokes the URL of that render.
\<close>

definition previewUrlCleanup :: "analyzer \<Rightarrow> analyzer \<Rightarrow> analyzer" where
  "previewUrlCleanup before after =
     (if previewUrl after \<noteq> previewUrl before \<and> previewUrl before \<noteq> [] then
        revokeObjectURL (previewUrl before) after
      else after)"

text \<open>
  Camera capture: \<open>getUserMedia\<close> either fails, and the handler reports it, or the frame
  drawn on the canvas comes back from \<open>toBlob\<close> as a blob of some size, or as null.
\<close>

datatype capture = CameraDenied | NoBlob | Blob nat

definition captureFromCamera :: "string \<Rightarrow> capture \<Rightarrow> analyzer \<Rightarrow> analyzer" where
  "captureFromCamera url c s =
     (case c of
        CameraDenied \<Rightarrow> toast_error ''Camera access denied or not available'' s
      | NoBlob \<Rightarrow> s
      | Blob n \<Rightarrow>
          handleFileSelect url
            \<lparr> file_name = ''camera-capture.jpg'', file_type = ''image/jpeg'', file_size = n \<rparr> s)"

section \<open>Location and weather\<close>

text \<open>
  Geolocation either is missing from the browser, or calls back with coordinates, or calls
  back with an error.  The handler and the callback run in two steps; the model takes the
  outcome as an argument and returns the state after the callback.
\<close>

datatype position = Unsupported | Position real real | PositionError

definition detectLocation :: "position \<Rightarrow> analyzer \<Rightarrow> analyzer" where
  "detectLocation p s =
     (case p of
        Unsupported \<Rightarrow> toast_error ''Geolocation is not supported by your browser'' s
      | Position latitude longitude \<Rightarrow>
          toast_success ''Location detected successfully''
            (s\<lparr>locationLoading := True\<rparr>
              \<lparr>location := Some \<lparr> lat = latitude, lng = longitude,
                                  loc_city = None, loc_state = None \<rparr>,
               locationLoading := False\<rparr>)
      | PositionError \<Rightarrow>
          (toast_error ''Failed to detect location. Please enter manually.''
            (s\<lparr>locationLoading := True\<rparr> \<lparr>locationLoading := False\<rparr>))
            \<lparr>showManualLocation := True\<rparr>)"

text \<open>\<open>r1\<close> and \<open>r2\<close> are the two values drawn from \<open>Math.random()\<close>.\<close>

definition handleManualLocationSubmit ::
  "(real \<Rightarrow> real) \<Rightarrow> real \<Rightarrow> real \<Rightarrow> analyzer \<Rightarrow> analyzer" where
  "handleManualLocationSubmit fl r1 r2 s =
     (if trim (city (manualLocation s)) = [] then
        toast_error ''Please enter a city name'' s
      else
        let mockCoords =
              \<lparr> lat = fl (fl 40.7128 + fl (fl (r1 - 0.5) * 10)),
                lng = fl (fl (- 74.0060) + fl (fl (r2 - 0.5) * 10)),
                loc_city = Some (city (manualLocation s)),
                loc_state = Some (state (manualLocation s)) \<rparr>
        in toast_success (''Location set to '' @ city (manualLocation s))
             (s\<lparr>location := Some mockCoords, showManualLocation := False\<rparr>))"

text \<open>The button that confirms the map picker.\<close>

definition confirmMapLocation :: "(real \<Rightarrow> real) \<Rightarrow> analyzer \<Rightarrow> analyzer" where
  "confirmMapLocation fl s =
     toast_success ''Location selected from map''
       (s\<lparr>location := Some \<lparr> lat = fl 40.7128, lng = fl (- 74.0060),
                              loc_city = Some ''New York'', loc_state = Some ''NY'' \<rparr>,
          showMapPicker := False\<rparr>)"

definition fetchWeather :: "analyzer \<Rightarrow> analyzer" where
  "fetchWeather s =
     (if location s = None then toast_error ''Please set location first'' s
      else setTimeout WeatherCallback 2000 (s\<lparr>weatherLoading := True\<rparr>))"

definition weatherDescriptions :: "string list" where
  "weatherDescriptions = [''Sunny'', ''Partly Cloudy'', ''Overcast'', ''Light Rain'']"

text \<open>
  Reading an array outside its bounds gives \<open>undefined\<close>.  A timer callback that then
  reads a property of \<open>undefined\<close> throws a \<open>TypeError\<close>; the weather callback stores
  \<open>undefined\<close> as the description, which \<open>WeatherData\<close> cannot hold.  Both are the left
  summand of the result.  \<open>Math.random()\<close> is below 1, so neither happens in a browser.
\<close>

datatype exn = TypeError | UndefinedDescription

definition index :: "'a list \<Rightarrow> int \<Rightarrow> 'a option" where
  "index xs i = (if 0 \<le> i \<and> i < int (length xs) then Some (xs ! nat i) else None)"

definition fetchWeatherTimeout ::
  "(real \<Rightarrow> real) \<Rightarrow> real \<Rightarrow> real \<Rightarrow> real \<Rightarrow> real \<Rightarrow> analyzer \<Rightarrow> exn + analyzer" where
  "fetchWeatherTimeout fl r1 r2 r3 r4 s =
     (case index weatherDescriptions (Math_floor (fl (r4 * 4))) of
        None \<Rightarrow> Inl UndefinedDescription
      | Some d \<Rightarrow>
          let mockWeather =
                \<lparr> temperature = Math_round (fl (15 + fl (r1 * 20))),
                  humidity = Math_round (fl (40 + fl (r2 * 40))),
                  precipitation = Math_round (fl (r3 * 10)),
                  description = d \<rparr>
          in Inr (toast_success ''Weather data fetched successfully''
                   ((expire WeatherCallback 2000 s)
                      \<lparr>weather := Some mockWeather, weatherLoading := False\<rparr>)))"

section \<open>Soil analysis\<close>

definition analyzeSoil :: "analyzer \<Rightarrow> analyzer" where
  "analyzeSoil s =
     (if selectedFile s = None then toast_error ''Please upload an image first'' s
      else setTimeout SoilCallback 3000
             (toast_info ''Analyzing soil composition...'' (s\<lparr>analyzing := True\<rparr>)))"

text \<open>The candidates carry no confidence yet; it is filled in by the callback.\<close>

definition soilTypes :: "SoilResult list" where
  "soilTypes =
     [ \<lparr> soil_type = ''Clay Loam'', confidence = 0,
         soil_description = ''Rich, fertile soil ideal for most crops'',
         color = ''#8B4513'' \<rparr>,
       \<lparr> soil_type = ''Sandy Loam'', confidence = 0,
         soil_description = ''Well-draining soil good for root vegetables'',
         color = ''#DEB887'' \<rparr>,
       \<lparr> soil_type = ''Silt Loam'', confidence = 0,
         soil_description = ''Nutrient-rich soil with good water retention'',
         color = ''#A0522D'' \<rparr>,
       \<lparr> soil_type = ''Clay'', confidence = 0,
         soil_description = ''Heavy soil that retains water well'',
         color = ''#654321'' \<rparr> ]"

definition analyzeSoilTimeout ::
  "(real \<Rightarrow> real) \<Rightarrow> real \<Rightarrow> real \<Rightarrow> analyzer \<Rightarrow> exn + analyzer" where
  "analyzeSoilTimeout fl r1 r2 s =
     (case index soilTypes (Math_floor (fl (r1 * real (length soilTypes)))) of
        None \<Rightarrow> Inl TypeError
      | Some selectedSoil \<Rightarrow>
          let confidence = fl (75 + fl (r2 * 20))
          in Inr (toast_success
                    (''Soil identified as '' @ soil_type selectedSoil @ '' ('' @
                       String (Math_round confidence) @ ''% confidence)'')
                    ((expire SoilCallback 3000 s)
                       \<lparr>soilResult := Some (selectedSoil\<lparr>confidence := Math_round confidence\<rparr>),
                        analyzing := False\<rparr>)))"

section \<open>Crop suggestions\<close>

definition suggestCrops :: "analyzer \<Rightarrow> analyzer" where
  "suggestCrops s =
     (if soilResult s = None then toast_error ''Please analyze soil first'' s
      else if weather s = None then
        toast_error ''Weather data required for crop suggestions'' s
      else setTimeout CropsCallback 2000
             (toast_info ''Generating crop suggestions...'' (s\<lparr>suggestingCrops := True\<rparr>)))"

definition crops :: "CropSuggestion list" where
  "crops =
     [ \<lparr> name = ''Tomatoes'', suitability = 92, season = ''Summer'',
         reason = ''Excellent match for clay loam soil'',
         details = ''Clay loam provides ideal drainage and nutrient retention for tomatoes. Current weather conditions are perfect for planting.'',
         saved = False \<rparr>,
       \<lparr> name = ''Carrots'', suitability = 88, season = ''Spring/Fall'',
         reason = ''Good root development in this soil type'',
         details = ''The soil structure allows for proper root expansion. Temperature and humidity levels support healthy growth.'',
         saved = False \<rparr>,
       \<lparr> name = ''Lettuce'', suitability = 85, season = ''Spring/Fall'',
         reason = ''Thrives in well-draining soil'',
         details = ''Quick-growing crop suitable for current soil and weather conditions. Low maintenance requirements.'',
         saved = False \<rparr>,
       \<lparr> name = ''Peppers'', suitability = 90, season = ''Summer'',
         reason = ''Heat-loving crop suited to current conditions'',
         details = ''Warm weather and soil type create ideal growing conditions. Expect high yield potential.'',
         saved = False \<rparr> ]"

definition suggestCropsTimeout :: "analyzer \<Rightarrow> analyzer" where
  "suggestCropsTimeout s =
     toast_success (''Found '' @ String (int (length crops)) @ '' crop suggestions'')
       ((expire CropsCallback 2000 s)
          \<lparr>cropSuggestions := crops, suggestingCrops := False\<rparr>)"

text \<open>
  The updater maps over the whole list; the toast is worded from the first entry of that
  name (\<open>Array.prototype.find\<close>) and from its flag before the toggle.
\<close>

definition toggleCropSaved :: "string \<Rightarrow> analyzer \<Rightarrow> analyzer" where
  "toggleCropSaved cropName s =
     (let s1 = s\<lparr>cropSuggestions :=
                   map (\<lambda>crop. if name crop = cropName
                                then crop\<lparr>saved := \<not> saved crop\<rparr> else crop)
                       (cropSuggestions s)\<rparr>
      in case find (\<lambda>c. name c = cropName) (cropSuggestions s) of
           None \<Rightarrow> s1
         | Some crop \<Rightarrow>
             toast_success
               (name crop @ '' '' @ (if saved crop then ''removed from'' else ''added to'')
                  @ '' your plans'') s1)"

definition toggleCropComparison :: "string \<Rightarrow> analyzer \<Rightarrow> analyzer" where
  "toggleCropComparison cropName s =
     (let prev = selectedCropsForComparison s;
          isSelected = (cropName \<in> set prev);
          newSelection = (if isSelected then filter (\<lambda>n. n \<noteq> cropName) prev
                          else prev @ [cropName])
      in toast_info
           (cropName @ '' '' @ (if isSelected then ''removed from'' else ''added to'')
              @ '' comparison'')
           (s\<lparr>selectedCropsForComparison := newSelection\<rparr>))"

section \<open>Reset\<close>

definition resetAll :: "analyzer \<Rightarrow> analyzer" where
  "resetAll s =
     toast_info ''All data cleared''
       ((clearImage s)
          \<lparr>location := None,
           manualLocation := \<lparr> city = [], state = [] \<rparr>,
           showManualLocation := False,
           weather := None,
           soilResult := None,
           cropSuggestions := [],
           selectedCropsForComparison := [],
           expandedCrop := None\<rparr>)"

section \<open>Export\<close>

definition downloadReport :: "analyzer \<Rightarrow> analyzer" where
  "downloadReport s =
     setTimeout DownloadCallback 2000 (toast_info ''Generating PDF report...'' s)"

definition downloadReportTimeout :: "analyzer \<Rightarrow> analyzer" where
  "downloadReportTimeout s =
     toast_success ''Report downloaded successfully'' (expire DownloadCallback 2000 s)"

definition sendEmailReport :: "analyzer \<Rightarrow> analyzer" where
  "sendEmailReport s =
     (if trim (exportEmail s) = [] then toast_error ''Please enter an email address'' s
      else setTimeout EmailCallback 2000
             (toast_info (''Sending report to '' @ exportEmail s @ ''...'') s))"

definition sendEmailReportTimeout :: "analyzer \<Rightarrow> analyzer" where
  "sendEmailReportTimeout s =
     (toast_success ''Email report sent successfully'' (expire EmailCallback 2000 s))
       \<lparr>showExportDialog := False, exportEmail := []\<rparr>"

section \<open>The settings dialog of the header (components/Header.tsx, first module)\<close>

record Notification =
  id' :: string
  title :: string
  message :: string
  timestamp :: string
  read :: bool

record header =
  searchValue :: string
  isSettingsOpen :: bool
  weatherAlerts :: bool
  notifications :: "Notification list"
  isNotificationsOpen :: bool
  isMobile :: bool
  headerToasts :: "toast list"

definition initialHeader :: header where
  "initialHeader =
     \<lparr> searchValue = [], isSettingsOpen = False, weatherAlerts = True,
       notifications =
         [ \<lparr> id' = ''1'', title = ''Soil Analysis Complete'',
             message = ''Your clay soil analysis is ready for review'',
             timestamp = ''2 min ago'', read = False \<rparr>,
           \<lparr> id' = ''2'', title = ''Weather Alert'',
             message = ''Heavy rain expected in your area tomorrow'',
             timestamp = ''1 hour ago'', read = False \<rparr> ],
       isNotificationsOpen = False, isMobile = False, headerToasts = [] \<rparr>"

definition setIsSettingsOpen :: "bool \<Rightarrow> header \<Rightarrow> header" where
  "setIsSettingsOpen b h = h\<lparr>isSettingsOpen := b\<rparr>"

definition setWeatherAlerts :: "bool \<Rightarrow> header \<Rightarrow> header" where
  "setWeatherAlerts b h = h\<lparr>weatherAlerts := b\<rparr>"

text \<open>The settings button, the switch of the dialog, and its two footer buttons.\<close>

definition openSettings :: "header \<Rightarrow> header" where
  "openSettings h = setIsSettingsOpen True h"

definition onCheckedChange :: "bool \<Rightarrow> header \<Rightarrow> header" where
  "onCheckedChange checked h = setWeatherAlerts checked h"

definition cancelSettings :: "header \<Rightarrow> header" where
  "cancelSettings h = setIsSettingsOpen False h"

definition handleSettingsSave :: "header \<Rightarrow> header" where
  "handleSettingsSave h =
     (setIsSettingsOpen False h)
       \<lparr>headerToasts := headerToasts h @ [ToastSuccess ''Settings saved successfully'']\<rparr>"

definition handleNotificationClick :: "string \<Rightarrow> header \<Rightarrow> header" where
  "handleNotificationClick i h =
     h\<lparr>notifications := map (\<lambda>n. if id' n = i then n\<lparr>read := True\<rparr> else n) (notifications h)\<rparr>"

text \<open>A visit to the dialog: it is opened, the switch is flipped some times, Cancel is pressed.\<close>

definition cancelledSession :: "bool list \<Rightarrow> header \<Rightarrow> header" where
  "cancelledSession flips h =
     cancelSettings (foldl (\<lambda>h' b. onCheckedChange b h') (openSettings h) flips)"

section \<open>Rounding, and a session to compute with\<close>

text \<open>
  What the proofs use of the rounding of binary64 arithmetic: it is monotone, it leaves
  the integers up to \<open>2 ^ 53\<close> alone, and four times a Number of the unit interval is
  again a Number.  Exact arithmetic (\<open>id\<close>) is one such rounding.
\<close>

definition binary64_rounding :: "(real \<Rightarrow> real) \<Rightarrow> bool" where
  "binary64_rounding fl \<longleftrightarrow>
     mono fl \<and>
     (\<forall>n::nat. n \<le> 2 ^ 53 \<longrightarrow> fl (real n) = real n) \<and>
     (\<forall>x. 0 \<le> x \<and> x < 1 \<and> fl x = x \<longrightarrow> fl (x * 4) = x * 4)"

text \<open>A 2 MB JPEG, a 12 MB PNG and a PDF.\<close>

definition photo :: File where
  "photo = \<lparr> file_name = ''field.jpg'', file_type = ''image/jpeg'', file_size = 2097152 \<rparr>"

definition poster :: File where
  "poster = \<lparr> file_name = ''poster.png'', file_type = ''image/png'', file_size = 12582912 \<rparr>"

definition leaflet :: File where
  "leaflet = \<lparr> file_name = ''leaflet.pdf'', file_type = ''application/pdf'', file_size = 4096 \<rparr>"

text \<open>
  The session of the photo: it is selected and analysed, the location is detected, the
  weather fetched, and crops are suggested; every timer has fired.
\<close>

definition analysed :: analyzer where
  "analysed =
     (case analyzeSoilTimeout id 0 0 (analyzeSoil (handleFileSelect ''blob:1'' photo initial)) of
        Inr s \<Rightarrow> s | Inl e \<Rightarrow> initial)"

definition forecast :: analyzer where
  "forecast =
     (case fetchWeatherTimeout id 0 0 0 0 (fetchWeather (detectLocation (Position 30 (- 97)) analysed)) of
        Inr s \<Rightarrow> s | Inl e \<Rightarrow> initial)"

definition suggested :: analyzer where
  "suggested = suggestCropsTimeout (suggestCrops forecast)"

section \<open>The composite state of the specification\<close>

text \<open>
  The specification describes the workflow by one value per entity: weather, soil and
  crops are each absent, in progress (loading, analyzing, suggesting) or present.  Read
  off the cells as the component renders them, an operation in flight comes first: its
  flag is up from the request until the callback lowers it.
\<close>

datatype phase = Absent | InProgress | Present

definition spec_weather :: "analyzer \<Rightarrow> phase" where
  "spec_weather s =
     (if weatherLoading s then InProgress else if weather s = None then Absent else Present)"

definition spec_soil :: "analyzer \<Rightarrow> phase" where
  "spec_soil s =
     (if analyzing s then InProgress else if soilResult s = None then Absent else Present)"

definition spec_crops :: "analyzer \<Rightarrow> phase" where
  "spec_crops s =
     (if suggestingCrops s then InProgress
      else if cropSuggestions s = [] then Absent else Present)"

text \<open>
  The photo is selected and Analyze is pressed; the callback has not run yet.  Then the
  image is cleared, or the session reset, and the callback runs after that.
\<close>

definition pending :: analyzer where
  "pending = analyzeSoil (handleFileSelect ''blob:1'' photo initial)"


definition reset_then_fired :: analyzer where
  "reset_then_fired =
     (case analyzeSoilTimeout id 0 0 (resetAll pending) of Inr s \<Rightarrow> s | Inl e \<Rightarrow> initial)"

section \<open>Facts used throughout\<close>

lemmas browser_defs =
  toast_error_def toast_success_def toast_info_def createObjectURL_def revokeObjectURL_def
  setTimeout_def expire_def

lemma trim_Nil: "trim [] = []"
  by (simp add: trim_def)

lemma binary64_rounding_id: "binary64_rounding id"
  by (simp add: binary64_rounding_def mono_def)

text \<open>The states of the session, computed.\<close>

lemma analysed_eq:
  "analysed =
     \<lparr> selectedFile = Some photo, previewUrl = ''blob:1'', isDragging = False,
       location = None, manualLocation = \<lparr> city = [], state = [] \<rparr>,
       showManualLocation = False, locationLoading = False,
       weather = None, weatherLoading = False,
       analyzing = False,
       soilResult = Some \<lparr> soil_type = ''Clay Loam'', confidence = 75,
         soil_description = ''Rich, fertile soil ideal for most crops'',
         color = ''#8B4513'' \<rparr>,
       cropSuggestions = [],
       suggestingCrops = False,
       showImageZoom = False, showMapPicker = False, showExportDialog = False,
       exportEmail = [], selectedCropsForComparison = [], expandedCrop = None,
       toasts = [ToastSuccess ''Image uploaded successfully'',
                 ToastInfo ''Analyzing soil composition...'',
                 ToastSuccess ''Soil identified as Clay Loam (75% confidence)''],
       objectUrls = [''blob:1''], timers = [] \<rparr>"
  by (simp add: analysed_def analyzeSoilTimeout_def analyzeSoil_def handleFileSelect_def
      photo_def initial_def startsWith_def browser_defs index_def soilTypes_def
      Math_floor_def Math_round_def String_def)

lemma forecast_fields:
  "soilResult forecast = soilResult analysed"
  "weather forecast =
     Some \<lparr> temperature = 15, humidity = 40, precipitation = 0, description = ''Sunny'' \<rparr>"
  "selectedFile forecast = Some photo"
  "cropSuggestions forecast = []"
  by (simp_all add: forecast_def fetchWeatherTimeout_def fetchWeather_def detectLocation_def
      analysed_eq browser_defs index_def weatherDescriptions_def Math_floor_def Math_round_def)

lemma suggested_fields:
  "soilResult suggested = soilResult analysed"
  "cropSuggestions suggested = crops"
  "selectedFile suggested = Some photo"
  by (simp_all add: suggested_def suggestCropsTimeout_def suggestCrops_def forecast_fields
      analysed_eq browser_defs)

lemma suggested_urls:
  "previewUrl suggested = ''blob:1''"
  "objectUrls suggested = [''blob:1'']"
  by (simp_all add: suggested_def suggestCropsTimeout_def suggestCrops_def forecast_def
      fetchWeatherTimeout_def fetchWeather_def detectLocation_def
      analysed_eq browser_defs index_def weatherDescriptions_def Math_floor_def Math_round_def)

lemma pending_eq:
  "pending =
     initial\<lparr>selectedFile := Some photo, previewUrl := ''blob:1'', analyzing := True,
       toasts := [ToastSuccess ''Image uploaded successfully'',
                  ToastInfo ''Analyzing soil composition...''],
       objectUrls := [''blob:1''], timers := [(SoilCallback, 3000)]\<rparr>"
  by (simp add: pending_def analyzeSoil_def handleFileSelect_def photo_def initial_def
      startsWith_def browser_defs)

lemma suggested_flags:
  "isDragging suggested = False" "locationLoading suggested = False"
  "weatherLoading suggested = False" "analyzing suggested = False"
  "suggestingCrops suggested = False" "showImageZoom suggested = False"
  "showMapPicker suggested = False" "showExportDialog suggested = False"
  "exportEmail suggested = []" "timers suggested = []"
  by (simp_all add: suggested_def suggestCropsTimeout_def suggestCrops_def forecast_def
      fetchWeatherTimeout_def fetchWeather_def detectLocation_def
      analysed_eq browser_defs index_def weatherDescriptions_def Math_floor_def Math_round_def)

section \<open>Selecting an image\<close>

text \<open>
  C1.  A file whose type starts with \<open>image/\<close> and whose size is at most 10 MB is
  accepted: through the file input, a drop, or the camera, the file becomes the selected
  one and the URL made for it the preview.  The handler writes no other cell: the soil
  result and the crop suggestions of the state before are still there afterwards.
\<close>

theorem handleFileSelect_keeps_results:
  assumes "startsWith (file_type file) ''image/''" and "file_size file \<le> 10 * 1024 * 1024"
  shows "handleFileSelect url file s =
           s\<lparr>selectedFile := Some file, previewUrl := url,
             objectUrls := url # objectUrls s,
             toasts := toasts s @ [ToastSuccess ''Image uploaded successfully'']\<rparr> \<and>
         (\<forall>t \<in> set [handleFileSelect url file s, handleFileInputChange url (Some file) s,
                     handleDrop url (Some file) s].
            selectedFile t = Some file \<and> previewUrl t = url \<and>
            soilResult t = soilResult s \<and> cropSuggestions t = cropSuggestions s) \<and>
         (n \<le> 10 * 1024 * 1024 \<longrightarrow>
            selectedFile (captureFromCamera url (Blob n) s) \<noteq> None \<and>
            previewUrl (captureFromCamera url (Blob n) s) = url \<and>
            soilResult (captureFromCamera url (Blob n) s) = soilResult s \<and>
            cropSuggestions (captureFromCamera url (Blob n) s) = cropSuggestions s)"
  using assms
  by (simp add: handleFileSelect_def handleFileInputChange_def handleDrop_def
      captureFromCamera_def startsWith_def browser_defs)

theorem handleFileSelect_keeps_results_witness:
  "startsWith (file_type photo) ''image/'' \<and> file_size photo \<le> 10 * 1024 * 1024 \<and>
   selectedFile (handleFileSelect ''blob:2'' photo suggested) = Some photo \<and>
   previewUrl (handleFileSelect ''blob:2'' photo suggested) = ''blob:2'' \<and>
   soilResult (handleFileSelect ''blob:2'' photo suggested) = soilResult suggested \<and>
   cropSuggestions (handleFileSelect ''blob:2'' photo suggested) = cropSuggestions suggested \<and>
   soilResult (captureFromCamera ''blob:2'' (Blob 300000) suggested) = soilResult suggested"
proof -
  have image: "startsWith (file_type photo) ''image/''"
    by (simp add: photo_def startsWith_def)
  have small: "file_size photo \<le> 10 * 1024 * 1024"
    by (simp add: photo_def)
  show ?thesis
    using image small
      handleFileSelect_keeps_results [OF image small, of "''blob:2''" suggested 300000]
    by simp
qed

text \<open>
  C1 as it is worded does not hold.  In the session of the photo the soil is analysed and
  four crops are suggested; selecting the photo again leaves both in place.
\<close>

theorem handleFileSelect_resets_counterexample:
  "startsWith (file_type photo) ''image/'' \<and> file_size photo \<le> 10 * 1024 * 1024 \<and>
   soilResult (handleFileSelect ''blob:2'' photo suggested) \<noteq> None \<and>
   cropSuggestions (handleFileSelect ''blob:2'' photo suggested) \<noteq> []"
  by (simp add: handleFileSelect_def browser_defs suggested_fields analysed_eq crops_def
      photo_def startsWith_def)

section \<open>Rejected transitions\<close>

text \<open>
  C2.  A transition that is rejected appends one error toast and changes nothing else:
  a file that is not an image or is larger than 10 MB (from the file input; a drop
  moreover puts out the dragging highlight), a manual location whose city is empty or
  blank, a weather request without a location, an analysis without an image, and a crop
  suggestion without a soil result or without weather.
\<close>

theorem rejected_transitions_unchanged:
  "(\<not> startsWith (file_type file) ''image/'' \<or> file_size file > 10 * 1024 * 1024 \<longrightarrow>
      handleFileSelect url file s =
        s\<lparr>toasts := toasts s @
           [ToastError (if \<not> startsWith (file_type file) ''image/''
                        then ''Please select a valid image file (JPEG or PNG)''
                        else ''Image size must be less than 10MB'')]\<rparr> \<and>
      handleFileInputChange url (Some file) s = handleFileSelect url file s \<and>
      handleDrop url (Some file) s = (handleFileSelect url file s)\<lparr>isDragging := False\<rparr>) \<and>
   (trim (city (manualLocation s)) = [] \<longrightarrow>
      handleManualLocationSubmit fl r1 r2 s =
        s\<lparr>toasts := toasts s @ [ToastError ''Please enter a city name'']\<rparr>) \<and>
   (location s = None \<longrightarrow>
      fetchWeather s = s\<lparr>toasts := toasts s @ [ToastError ''Please set location first'']\<rparr>) \<and>
   (selectedFile s = None \<longrightarrow>
      analyzeSoil s = s\<lparr>toasts := toasts s @ [ToastError ''Please upload an image first'']\<rparr>) \<and>
   (soilResult s = None \<or> weather s = None \<longrightarrow>
      suggestCrops s =
        s\<lparr>toasts := toasts s @
           [ToastError (if soilResult s = None then ''Please analyze soil first''
                        else ''Weather data required for crop suggestions'')]\<rparr>)"
  by (simp add: handleFileSelect_def handleFileInputChange_def handleDrop_def
      handleManualLocationSubmit_def fetchWeather_def analyzeSoil_def suggestCrops_def
      toast_error_def)

theorem rejected_transitions_unchanged_witness:
  "handleFileSelect ''blob:9'' leaflet initial =
     initial\<lparr>toasts := [ToastError ''Please select a valid image file (JPEG or PNG)'']\<rparr> \<and>
   handleDrop ''blob:9'' (Some leaflet) initial =
     initial\<lparr>toasts := [ToastError ''Please select a valid image file (JPEG or PNG)'']\<rparr> \<and>
   handleFileSelect ''blob:9'' poster initial =
     initial\<lparr>toasts := [ToastError ''Image size must be less than 10MB'']\<rparr> \<and>
   handleManualLocationSubmit id 0 0 initial =
     initial\<lparr>toasts := [ToastError ''Please enter a city name'']\<rparr> \<and>
   fetchWeather initial = initial\<lparr>toasts := [ToastError ''Please set location first'']\<rparr> \<and>
   analyzeSoil initial = initial\<lparr>toasts := [ToastError ''Please upload an image first'']\<rparr> \<and>
   suggestCrops initial = initial\<lparr>toasts := [ToastError ''Please analyze soil first'']\<rparr>"
  using rejected_transitions_unchanged [of leaflet "''blob:9''" initial id 0 0]
    rejected_transitions_unchanged [of poster "''blob:9''" initial id 0 0]
  by (simp add: leaflet_def poster_def startsWith_def initial_def trim_Nil)

section \<open>Clearing the image\<close>




section \<open>Suggesting crops\<close>



text \<open>
  C5.  When soil result and weather are present, the request raises the suggesting flag
  and schedules the callback after 2000 ms.  Whenever that callback runs, in the state
  the request left or in any later state \<open>s'\<close>, the list of suggestions becomes the fixed
  list: four entries, none of them saved.
\<close>

theorem suggestCrops_four_unsaved:
  assumes "soilResult s \<noteq> None" and "weather s \<noteq> None"
  shows "suggestingCrops (suggestCrops s) \<and>
         (CropsCallback, 2000) \<in> set (timers (suggestCrops s)) \<and>
         length (cropSuggestions (suggestCropsTimeout (suggestCrops s))) = 4 \<and>
         (\<forall>c \<in> set (cropSuggestions (suggestCropsTimeout (suggestCrops s))). saved c = False) \<and>
         length (cropSuggestions (suggestCropsTimeout s')) = 4 \<and>
         (\<forall>c \<in> set (cropSuggestions (suggestCropsTimeout s')). saved c = False) \<and>
         \<not> suggestingCrops (suggestCropsTimeout s')"
  using assms
  by (auto simp add: suggestCrops_def suggestCropsTimeout_def browser_defs crops_def)

theorem suggestCrops_four_unsaved_witness:
  "soilResult forecast \<noteq> None \<and> weather forecast \<noteq> None \<and>
   cropSuggestions forecast = [] \<and>
   length (cropSuggestions (suggestCropsTimeout (suggestCrops forecast))) = 4 \<and>
   saved (cropSuggestions (suggestCropsTimeout (suggestCrops forecast)) ! 0) = False \<and>
   saved (cropSuggestions (suggestCropsTimeout (suggestCrops forecast)) ! 1) = False \<and>
   saved (cropSuggestions (suggestCropsTimeout (suggestCrops forecast)) ! 2) = False \<and>
   saved (cropSuggestions (suggestCropsTimeout (suggestCrops forecast)) ! 3) = False"
  using suggestCrops_four_unsaved [of forecast "suggestCrops forecast"]
  by (simp add: forecast_fields analysed_eq all_set_conv_all_nth)

section \<open>Saving a crop\<close>

lemma cropSuggestions_toggle:
  "cropSuggestions (toggleCropSaved n s) =
     map (\<lambda>crop. if name crop = n then crop\<lparr>saved := \<not> saved crop\<rparr> else crop)
       (cropSuggestions s)"
  by (simp add: toggleCropSaved_def Let_def toast_success_def split: option.split)

lemma toggle_twice:
  "map (\<lambda>crop. if name crop = n then crop\<lparr>saved := \<not> saved crop\<rparr> else crop)
     (map (\<lambda>crop. if name crop = n then crop\<lparr>saved := \<not> saved crop\<rparr> else crop) xs) = xs"
  by (induction xs) auto

lemma find_toggled:
  "find (\<lambda>c. name c = n)
     (map (\<lambda>crop. if name crop = n then crop\<lparr>saved := \<not> saved crop\<rparr> else crop) xs) =
   map_option (\<lambda>crop. crop\<lparr>saved := \<not> saved crop\<rparr>) (find (\<lambda>c. name c = n) xs)"
  by (induction xs) auto

lemma find_absent: "n \<notin> name ` set xs \<Longrightarrow> find (\<lambda>c. name c = n) xs = None"
  by (induction xs) auto

lemma toggle_absent:
  "n \<notin> name ` set xs \<Longrightarrow>
   map (\<lambda>crop. if name crop = n then crop\<lparr>saved := \<not> saved crop\<rparr> else crop) xs = xs"
  by (induction xs) auto

lemma toggled_names_meet:
  assumes d: "distinct (map name xs)" and i: "i < length xs" and j: "j < length xs"
    and ni: "name (xs ! i) = n" and nj: "name (xs ! j) = n"
  shows "i = j"
proof -
  have "map name xs ! i = map name xs ! j" using i j ni nj by simp
  moreover have "i < length (map name xs)" and "j < length (map name xs)"
    using i j by simp_all
  ultimately show ?thesis using d nth_eq_iff_index_eq by blast
qed

text \<open>
  C6.  For every state and every crop name, toggling the saved flag twice gives back the
  list of suggestions, and the whole state but for the two toasts.  One toggle keeps
  the length of the list; at each position, an entry of that name has its saved flag
  negated and nothing else changed, and an entry of another name is as before; no cell
  other than the list (and the toasts) changes.  Where the names in the list are
  distinct, at most one position changes.
\<close>

theorem toggleCropSaved_twice:
  "cropSuggestions (toggleCropSaved n (toggleCropSaved n s)) = cropSuggestions s \<and>
   (toggleCropSaved n (toggleCropSaved n s))\<lparr>toasts := toasts s\<rparr> = s \<and>
   length (cropSuggestions (toggleCropSaved n s)) = length (cropSuggestions s) \<and>
   (\<forall>i < length (cropSuggestions s).
      cropSuggestions (toggleCropSaved n s) ! i =
        (if name (cropSuggestions s ! i) = n
         then (cropSuggestions s ! i)\<lparr>saved := \<not> saved (cropSuggestions s ! i)\<rparr>
         else cropSuggestions s ! i)) \<and>
   (toggleCropSaved n s)\<lparr>cropSuggestions := cropSuggestions s, toasts := toasts s\<rparr> = s \<and>
   (distinct (map name (cropSuggestions s)) \<longrightarrow>
      (\<forall>i j. i < length (cropSuggestions s) \<and> j < length (cropSuggestions s) \<and>
         cropSuggestions (toggleCropSaved n s) ! i \<noteq> cropSuggestions s ! i \<and>
         cropSuggestions (toggleCropSaved n s) ! j \<noteq> cropSuggestions s ! j \<longrightarrow> i = j))"
proof -
  have state: "cropSuggestions (toggleCropSaved n (toggleCropSaved n s)) = cropSuggestions s \<and>
      (toggleCropSaved n (toggleCropSaved n s))\<lparr>toasts := toasts s\<rparr> = s \<and>
      length (cropSuggestions (toggleCropSaved n s)) = length (cropSuggestions s) \<and>
      (\<forall>i < length (cropSuggestions s).
         cropSuggestions (toggleCropSaved n s) ! i =
           (if name (cropSuggestions s ! i) = n
            then (cropSuggestions s ! i)\<lparr>saved := \<not> saved (cropSuggestions s ! i)\<rparr>
            else cropSuggestions s ! i)) \<and>
      (toggleCropSaved n s)\<lparr>cropSuggestions := cropSuggestions s, toasts := toasts s\<rparr> = s"
    by (simp add: toggleCropSaved_def Let_def toast_success_def toggle_twice find_toggled
        del: map_map split: option.split)
  have one: "distinct (map name (cropSuggestions s)) \<longrightarrow>
      (\<forall>i j. i < length (cropSuggestions s) \<and> j < length (cropSuggestions s) \<and>
         cropSuggestions (toggleCropSaved n s) ! i \<noteq> cropSuggestions s ! i \<and>
         cropSuggestions (toggleCropSaved n s) ! j \<noteq> cropSuggestions s ! j \<longrightarrow> i = j)"
    by (auto simp add: cropSuggestions_toggle split: if_splits intro: toggled_names_meet)
  from state one show ?thesis by blast
qed

theorem toggleCropSaved_twice_witness:
  "cropSuggestions (toggleCropSaved ''Carrots'' suggested) ! 0 = crops ! 0 \<and>
   cropSuggestions (toggleCropSaved ''Carrots'' suggested) ! 1 = (crops ! 1)\<lparr>saved := True\<rparr> \<and>
   cropSuggestions (toggleCropSaved ''Carrots'' suggested) ! 2 = crops ! 2 \<and>
   cropSuggestions (toggleCropSaved ''Carrots'' suggested) ! 3 = crops ! 3 \<and>
   cropSuggestions (toggleCropSaved ''Carrots'' (toggleCropSaved ''Carrots'' suggested)) = crops"
  using toggleCropSaved_twice [of "''Carrots''" suggested]
  by (simp add: suggested_fields crops_def)

text \<open>
  C10.  For every state and every crop name that no entry of the list bears, the toggle
  returns the state as it was: the list, every other cell, and no toast.
\<close>

theorem toggleCropSaved_unknown_name:
  "n \<notin> name ` set (cropSuggestions s) \<Longrightarrow> toggleCropSaved n s = s"
  by (simp add: toggleCropSaved_def Let_def find_absent toggle_absent)

theorem toggleCropSaved_unknown_name_witness:
  "''Maize'' \<notin> name ` set (cropSuggestions suggested) \<and>
   cropSuggestions suggested \<noteq> [] \<and>
   toggleCropSaved ''Maize'' suggested = suggested"
proof -
  have absent: "''Maize'' \<notin> name ` set (cropSuggestions suggested)"
    by (simp add: suggested_fields crops_def)
  show ?thesis
    using absent toggleCropSaved_unknown_name [OF absent]
    by (simp add: suggested_fields crops_def)
qed

section \<open>Reset\<close>

text \<open>
  C7.  From every state, reset leaves no image and no preview, no location, no weather,
  no soil result and no crop suggestion, and the preview URL the state held is no longer
  alive.  The state after reset is the initial one in every cell that reset writes; the
  cells it does not write (the dragging and loading flags, the dialog flags, the export
  address, the pending timers) are as before.  So weather, soil and crops are absent
  afterwards when nothing is in flight and still in progress otherwise, and the state is
  the initial one (toasts and object URLs apart) exactly when the cells that reset does
  not write had their initial values.
\<close>

theorem resetAll_resets_cells:
  "selectedFile (resetAll s) = None \<and> previewUrl (resetAll s) = [] \<and>
   location (resetAll s) = None \<and> weather (resetAll s) = None \<and>
   soilResult (resetAll s) = None \<and> cropSuggestions (resetAll s) = [] \<and>
   (previewUrl s \<noteq> [] \<longrightarrow> previewUrl s \<notin> set (objectUrls (resetAll s))) \<and>
   resetAll s =
     initial\<lparr>isDragging := isDragging s, locationLoading := locationLoading s,
       weatherLoading := weatherLoading s, analyzing := analyzing s,
       suggestingCrops := suggestingCrops s, showImageZoom := showImageZoom s,
       showMapPicker := showMapPicker s, showExportDialog := showExportDialog s,
       exportEmail := exportEmail s,
       toasts := toasts s @ [ToastInfo ''Image cleared'', ToastInfo ''All data cleared''],
       objectUrls := (if previewUrl s \<noteq> [] then removeAll (previewUrl s) (objectUrls s)
                      else objectUrls s),
       timers := timers s\<rparr> \<and>
   spec_weather (resetAll s) = (if weatherLoading s then InProgress else Absent) \<and>
   spec_soil (resetAll s) = (if analyzing s then InProgress else Absent) \<and>
   spec_crops (resetAll s) = (if suggestingCrops s then InProgress else Absent) \<and>
   ((resetAll s)\<lparr>toasts := [], objectUrls := []\<rparr> = initial \<longleftrightarrow>
      \<not> isDragging s \<and> \<not> locationLoading s \<and> \<not> weatherLoading s \<and> \<not> analyzing s \<and>
      \<not> suggestingCrops s \<and> \<not> showImageZoom s \<and> \<not> showMapPicker s \<and>
      \<not> showExportDialog s \<and> exportEmail s = [] \<and> timers s = [])"
proof -
  have cells: "resetAll s =
     initial\<lparr>isDragging := isDragging s, locationLoading := locationLoading s,
       weatherLoading := weatherLoading s, analyzing := analyzing s,
       suggestingCrops := suggestingCrops s, showImageZoom := showImageZoom s,
       showMapPicker := showMapPicker s, showExportDialog := showExportDialog s,
       exportEmail := exportEmail s,
       toasts := toasts s @ [ToastInfo ''Image cleared'', ToastInfo ''All data cleared''],
       objectUrls := (if previewUrl s \<noteq> [] then removeAll (previewUrl s) (objectUrls s)
                      else objectUrls s),
       timers := timers s\<rparr>"
    by (simp add: resetAll_def clearImage_def Let_def browser_defs initial_def)
  have entities: "selectedFile (resetAll s) = None \<and> previewUrl (resetAll s) = [] \<and>
      location (resetAll s) = None \<and> weather (resetAll s) = None \<and>
      soilResult (resetAll s) = None \<and> cropSuggestions (resetAll s) = [] \<and>
      (previewUrl s \<noteq> [] \<longrightarrow> previewUrl s \<notin> set (objectUrls (resetAll s)))"
    by (simp add: resetAll_def clearImage_def Let_def browser_defs)
  have phases: "spec_weather (resetAll s) = (if weatherLoading s then InProgress else Absent) \<and>
      spec_soil (resetAll s) = (if analyzing s then InProgress else Absent) \<and>
      spec_crops (resetAll s) = (if suggestingCrops s then InProgress else Absent)"
    by (simp add: resetAll_def clearImage_def Let_def browser_defs
        spec_weather_def spec_soil_def spec_crops_def)
  have full: "(resetAll s)\<lparr>toasts := [], objectUrls := []\<rparr> = initial \<longleftrightarrow>
      \<not> isDragging s \<and> \<not> locationLoading s \<and> \<not> weatherLoading s \<and> \<not> analyzing s \<and>
      \<not> suggestingCrops s \<and> \<not> showImageZoom s \<and> \<not> showMapPicker s \<and>
      \<not> showExportDialog s \<and> exportEmail s = [] \<and> timers s = []"
    unfolding cells by (simp add: initial_def)
  from cells entities phases full show ?thesis by blast
qed

theorem resetAll_resets_cells_witness:
  "selectedFile suggested \<noteq> None \<and> soilResult suggested \<noteq> None \<and>
   cropSuggestions suggested \<noteq> [] \<and> ''blob:1'' \<in> set (objectUrls suggested) \<and>
   selectedFile (resetAll suggested) = None \<and> soilResult (resetAll suggested) = None \<and>
   cropSuggestions (resetAll suggested) = [] \<and>
   ''blob:1'' \<notin> set (objectUrls (resetAll suggested)) \<and>
   spec_soil (resetAll suggested) = Absent \<and>
   (resetAll suggested)\<lparr>toasts := [], objectUrls := []\<rparr> = initial"
  using resetAll_resets_cells [of suggested]
  by (simp add: suggested_fields suggested_urls suggested_flags analysed_eq crops_def
      initial_def spec_soil_def)

text \<open>
  C7 as it is worded does not hold from every reachable state.  With an analysis in
  flight, reset leaves the analyzing flag up and the timer pending: the state is not the
  initial one, and when the timer fires it stores a soil result although no image is
  selected.
\<close>

theorem resetAll_in_flight_counterexample:
  "selectedFile pending \<noteq> None \<and>
   analyzing (resetAll pending) = True \<and>
   timers (resetAll pending) = [(SoilCallback, 3000)] \<and>
   spec_soil (resetAll pending) = InProgress \<and>
   (resetAll pending)\<lparr>toasts := [], objectUrls := []\<rparr> \<noteq> initial \<and>
   analyzeSoilTimeout id 0 0 (resetAll pending) = Inr reset_then_fired \<and>
   selectedFile reset_then_fired = None \<and>
   soilResult reset_then_fired \<noteq> None"
  by (simp add: reset_then_fired_def resetAll_def clearImage_def Let_def pending_eq
      initial_def browser_defs spec_soil_def analyzeSoilTimeout_def index_def soilTypes_def
      Math_floor_def Math_round_def String_def)

section \<open>Analysing the soil\<close>

lemma rounded_confidence:
  assumes fl: "binary64_rounding fl" and r: "0 \<le> r" "r < 1"
  shows "75 \<le> Math_round (fl (75 + fl (r * 20))) \<and> Math_round (fl (75 + fl (r * 20))) \<le> 95"
proof -
  have mono: "\<And>x y. x \<le> y \<Longrightarrow> fl x \<le> fl y"
    using fl by (simp add: binary64_rounding_def mono_def)
  have ints: "\<And>n::nat. n \<le> 2 ^ 53 \<Longrightarrow> fl (real n) = real n"
    using fl by (simp add: binary64_rounding_def)
  have f0: "fl 0 = 0" using ints [of 0] by simp
  have f20: "fl 20 = 20" using ints [of 20] by simp
  have f75: "fl 75 = 75" using ints [of 75] by simp
  have f95: "fl 95 = 95" using ints [of 95] by simp
  have "0 \<le> r * 20" and "r * 20 \<le> 20" using r by simp_all
  then have a: "0 \<le> fl (r * 20)" "fl (r * 20) \<le> 20"
    using mono [of 0 "r * 20"] mono [of "r * 20" 20] f0 f20 by simp_all
  then have "75 \<le> 75 + fl (r * 20)" and "75 + fl (r * 20) \<le> 95" by simp_all
  then have b: "75 \<le> fl (75 + fl (r * 20))" "fl (75 + fl (r * 20)) \<le> 95"
    using mono [of 75 "75 + fl (r * 20)"] mono [of "75 + fl (r * 20)" 95] f75 f95 by simp_all
  show ?thesis
    using b unfolding Math_round_def by linarith
qed

lemma random_index:
  assumes fl: "binary64_rounding fl" and r: "0 \<le> r" "r < 1" "fl r = r"
  shows "0 \<le> Math_floor (fl (r * 4)) \<and> Math_floor (fl (r * 4)) < 4"
proof -
  have "fl (r * 4) = r * 4"
    using fl r by (simp add: binary64_rounding_def)
  moreover have "0 \<le> r * 4" and "r * 4 < 4" using r by simp_all
  ultimately show ?thesis
    unfolding Math_floor_def by (simp add: floor_less_iff)
qed

lemma index_soilTypes:
  assumes "0 \<le> i" and "i < 4"
  shows "\<exists>t. index soilTypes i = Some t \<and>
             soil_type t \<in> {''Clay Loam'', ''Sandy Loam'', ''Silt Loam'', ''Clay''}"
proof -
  from assms have "i = 0 \<or> i = 1 \<or> i = 2 \<or> i = 3" by arith
  then show ?thesis
    by (auto simp add: index_def soilTypes_def)
qed

text \<open>
  C8.  Without an image the analysis is rejected: an error toast and nothing else.  With
  an image the analysing flag is raised and the callback is scheduled after 3000 ms.
  Let \<open>r1\<close> and \<open>r2\<close> be the two Numbers \<open>Math.random()\<close> gives the callback, at least 0
  and below 1.  Then the callback, in whatever state \<open>s'\<close> it runs, returns normally and
  leaves a soil result whose type is Clay Loam, Sandy Loam, Silt Loam or Clay and whose
  confidence is an integer from 75 to 95.
\<close>

theorem analyzeSoil_type_and_confidence:
  assumes "binary64_rounding fl"
    and "0 \<le> r1" and "r1 < 1" and "fl r1 = r1"
    and "0 \<le> r2" and "r2 < 1"
  shows "(selectedFile s = None \<longrightarrow>
            analyzeSoil s = s\<lparr>toasts := toasts s @ [ToastError ''Please upload an image first'']\<rparr>) \<and>
         (selectedFile s \<noteq> None \<longrightarrow>
            analyzing (analyzeSoil s) \<and>
            timers (analyzeSoil s) = timers s @ [(SoilCallback, 3000)]) \<and>
         (\<exists>s'' res. analyzeSoilTimeout fl r1 r2 s' = Inr s'' \<and>
            soilResult s'' = Some res \<and> \<not> analyzing s'' \<and>
            soil_type res \<in> {''Clay Loam'', ''Sandy Loam'', ''Silt Loam'', ''Clay''} \<and>
            75 \<le> confidence res \<and> confidence res \<le> 95)"
proof -
  have guard: "selectedFile s = None \<longrightarrow>
      analyzeSoil s = s\<lparr>toasts := toasts s @ [ToastError ''Please upload an image first'']\<rparr>"
    by (simp add: analyzeSoil_def toast_error_def)
  have start: "selectedFile s \<noteq> None \<longrightarrow>
      analyzing (analyzeSoil s) \<and> timers (analyzeSoil s) = timers s @ [(SoilCallback, 3000)]"
    by (simp add: analyzeSoil_def browser_defs)
  have len: "real (length soilTypes) = 4"
    by (simp add: soilTypes_def)
  obtain t where t: "index soilTypes (Math_floor (fl (r1 * 4))) = Some t"
    and ty: "soil_type t \<in> {''Clay Loam'', ''Sandy Loam'', ''Silt Loam'', ''Clay''}"
    using index_soilTypes random_index [OF assms(1-4)] by blast
  have conf: "75 \<le> Math_round (fl (75 + fl (r2 * 20)))"
    "Math_round (fl (75 + fl (r2 * 20))) \<le> 95"
    using rounded_confidence [OF assms(1) assms(5,6)] by simp_all
  have fired: "\<exists>s'' res. analyzeSoilTimeout fl r1 r2 s' = Inr s'' \<and>
      soilResult s'' = Some res \<and> \<not> analyzing s'' \<and>
      soil_type res \<in> {''Clay Loam'', ''Sandy Loam'', ''Silt Loam'', ''Clay''} \<and>
      75 \<le> confidence res \<and> confidence res \<le> 95"
    using t ty conf by (simp add: analyzeSoilTimeout_def len Let_def browser_defs)
  from guard start fired show ?thesis by blast
qed

theorem analyzeSoil_type_and_confidence_witness:
  "binary64_rounding id \<and>
   analyzeSoil initial = initial\<lparr>toasts := [ToastError ''Please upload an image first'']\<rparr> \<and>
   (\<exists>s'' res.
      analyzeSoilTimeout id (1 / 2) (999 / 1000)
        (analyzeSoil (handleFileSelect ''blob:1'' photo initial)) = Inr s'' \<and>
      soilResult s'' = Some res \<and> \<not> analyzing s'' \<and>
      soil_type res \<in> {''Clay Loam'', ''Sandy Loam'', ''Silt Loam'', ''Clay''} \<and>
      75 \<le> confidence res \<and> confidence res \<le> 95)"
proof -
  have fl: "binary64_rounding id" by (rule binary64_rounding_id)
  have r1: "(0::real) \<le> 1 / 2" "(1::real) / 2 < 1" "id ((1::real) / 2) = 1 / 2" by simp_all
  have r2: "(0::real) \<le> 999 / 1000" "(999::real) / 1000 < 1" by simp_all
  note run = analyzeSoil_type_and_confidence [OF fl r1 r2, of initial
      "analyzeSoil (handleFileSelect ''blob:1'' photo initial)"]
  have guard: "analyzeSoil initial =
      initial\<lparr>toasts := [ToastError ''Please upload an image first'']\<rparr>"
    using conjunct1 [OF run] by (simp add: initial_def)
  show ?thesis
    using fl guard conjunct2 [OF conjunct2 [OF run]] by blast
qed

section \<open>Cancelling the settings dialog\<close>

lemma foldl_onCheckedChange:
  "foldl (\<lambda>h' b. onCheckedChange b h') h flips =
     h\<lparr>weatherAlerts := (if flips = [] then weatherAlerts h else last flips)\<rparr>"
  by (induction flips arbitrary: h) (simp_all add: onCheckedChange_def setWeatherAlerts_def)

text \<open>
  C9.  Cancel writes the open flag of the dialog and nothing else.  So after the dialog
  is opened, the switch is flipped any number of times and Cancel is pressed, the dialog
  is closed, the weather-alerts preference is the value the switch was last set to (its
  value from before the dialog if the switch was never touched), and every other cell of
  the header is as it was before the dialog was opened.
\<close>

theorem cancelSettings_no_rollback:
  "cancelSettings h = h\<lparr>isSettingsOpen := False\<rparr> \<and>
   isSettingsOpen (cancelledSession flips h) = False \<and>
   (flips \<noteq> [] \<longrightarrow> weatherAlerts (cancelledSession flips h) = last flips) \<and>
   (flips = [] \<longrightarrow> weatherAlerts (cancelledSession flips h) = weatherAlerts h) \<and>
   (cancelledSession flips h)
      \<lparr>isSettingsOpen := isSettingsOpen h, weatherAlerts := weatherAlerts h\<rparr> = h"
  by (simp add: cancelledSession_def cancelSettings_def openSettings_def setIsSettingsOpen_def
      foldl_onCheckedChange)

theorem cancelSettings_no_rollback_witness:
  "weatherAlerts initialHeader = True \<and>
   weatherAlerts (cancelledSession [False] initialHeader) = False \<and>
   isSettingsOpen (cancelledSession [False] initialHeader) = False \<and>
   weatherAlerts (cancelledSession [False, True, False] initialHeader) = False"
  using cancelSettings_no_rollback [of initialHeader "[False]"]
    cancelSettings_no_rollback [of initialHeader "[False, True, False]"]
  by (simp add: initialHeader_def)

end
